theory Spec2Isabelle
  imports Main "HOL-Library.Word"
begin

section \<open>The PostgreSQL version-record driver\<close>

subsection \<open>Errors\<close>

text \<open>
  A Go \<^verbatim>\<open>error\<close> value, as far as the driver inspects it. \<open>PqError code\<close> is a
  \<^verbatim>\<open>*pq.Error\<close> and \<open>PgconnError code\<close> a \<^verbatim>\<open>*pgconn.PgError\<close>, each with its
  SQLSTATE code; \<open>ErrNoRows\<close> is the sentinel \<^verbatim>\<open>sql.ErrNoRows\<close>; \<open>Opaque msg\<close> is any
  other error (a broken connection, a cancelled context); \<open>Wrap msg e\<close> is an error whose
  \<^verbatim>\<open>Unwrap\<close> method returns \<open>e\<close>. A nil error is \<open>None\<close>.
\<close>

datatype go_error =
    PqError string
  | PgconnError string
  | ErrNoRows
  | Opaque string
  | Wrap string go_error

text \<open>The constant \<^verbatim>\<open>pgerrcode.UniqueViolation\<close>: SQLSTATE 23505.\<close>

definition UniqueViolation :: string where
  "UniqueViolation = ''23505''"

text \<open>
  \<^verbatim>\<open>errors.As(err, &e)\<close> with \<^verbatim>\<open>e\<close> of type \<^verbatim>\<open>*pq.Error\<close>: the first error of that
  type along the chain of \<^verbatim>\<open>Unwrap\<close>, if there is one.
\<close>

fun as_pq :: "go_error \<Rightarrow> string option" where
  "as_pq (PqError code) = Some code"
| "as_pq (Wrap msg e) = as_pq e"
| "as_pq _ = None"

text \<open>The same with \<^verbatim>\<open>e\<close> of type \<^verbatim>\<open>*pgconn.PgError\<close>.\<close>

fun as_pgconn :: "go_error \<Rightarrow> string option" where
  "as_pgconn (PgconnError code) = Some code"
| "as_pgconn (Wrap msg e) = as_pgconn e"
| "as_pgconn _ = None"

text \<open>
  \<^verbatim>\<open>postgresDriver.isDup\<close>. \<^verbatim>\<open>errors.As\<close> is false on a nil error, so both
  blocks are skipped and the result is false.
\<close>

definition isDup :: "go_error option \<Rightarrow> bool" where
  "isDup err =
     (case err of
        None \<Rightarrow> False
      | Some e \<Rightarrow>
          (case as_pq e of
             Some code \<Rightarrow> code = UniqueViolation
           | None \<Rightarrow>
               (case as_pgconn e of
                  Some code \<Rightarrow> code = UniqueViolation
                | None \<Rightarrow> False)))"

subsection \<open>The table and the database connection\<close>

text \<open>
  A version token and a resource identifier are byte slices. The driver only ever asks
  for \<^verbatim>\<open>len(x) == 0\<close>, so the nil slice and the empty slice are both \<open>[]\<close>.
\<close>

type_synonym bytes = "8 word list"

text \<open>
  The table \<^verbatim>\<open>projection.occ\<close> of \<^verbatim>\<open>CreateSchema\<close>: its primary key is
  \<^verbatim>\<open>(handler, resource)\<close>, so it holds at most one version per key and is a map from
  the key to the version.
\<close>

type_synonym occ_table = "(string \<times> bytes) \<rightharpoonup> bytes"

definition empty_table :: occ_table where
  "empty_table = Map.empty"

text \<open>
  The two database/sql drivers that \<^verbatim>\<open>IsCompatibleWith\<close> accepts. They differ in the
  Go type of the error that carries a server-side failure.
\<close>

datatype sql_driver = LibPq | PgxStdlib

text \<open>
  What lies outside the driver's code during one call: which database/sql driver the
  connection uses, whether the statement fails before it takes effect (\<open>exec_fault\<close>: the
  error then returned by \<^verbatim>\<open>ExecContext\<close> or \<^verbatim>\<open>Scan\<close>), and whether
  \<^verbatim>\<open>RowsAffected\<close> fails (\<open>rows_fault\<close>).
\<close>

record backend =
  driver :: sql_driver
  exec_fault :: "go_error option"
  rows_fault :: "go_error option"

text \<open>A \<^verbatim>\<open>sql.Result\<close>: the number of rows the statement affected.\<close>

record sql_result =
  affected :: int

definition unique_violation :: "sql_driver \<Rightarrow> go_error" where
  "unique_violation d =
     (case d of LibPq \<Rightarrow> PqError UniqueViolation | PgxStdlib \<Rightarrow> PgconnError UniqueViolation)"

text \<open>
  \<^verbatim>\<open>INSERT INTO projection.occ (handler, resource, version) VALUES ($1, $2, $3)\<close>:
  a row with the same primary key makes the statement fail with a unique violation and
  leaves the table as it was.
\<close>

definition exec_insert ::
  "backend \<Rightarrow> occ_table \<Rightarrow> string \<Rightarrow> bytes \<Rightarrow> bytes \<Rightarrow> go_error option \<times> occ_table" where
  "exec_insert b t h r v =
     (case exec_fault b of
        Some e \<Rightarrow> (Some e, t)
      | None \<Rightarrow>
          (case t (h, r) of
             Some old \<Rightarrow> (Some (unique_violation (driver b)), t)
           | None \<Rightarrow> (None, t((h, r) \<mapsto> v))))"

text \<open>
  The same \<^verbatim>\<open>INSERT\<close> with \<^verbatim>\<open>ON CONFLICT (handler, resource) DO UPDATE SET
  version = excluded.version\<close>.
\<close>

definition exec_upsert ::
  "backend \<Rightarrow> occ_table \<Rightarrow> string \<Rightarrow> bytes \<Rightarrow> bytes \<Rightarrow> go_error option \<times> occ_table" where
  "exec_upsert b t h r v =
     (case exec_fault b of
        Some e \<Rightarrow> (Some e, t)
      | None \<Rightarrow> (None, t((h, r) \<mapsto> v)))"

text \<open>
  \<^verbatim>\<open>DELETE FROM projection.occ WHERE handler = $1 AND resource = $2 AND version = $3\<close>.
  \<^verbatim>\<open>ExecContext\<close> returns either an error (\<open>Inl\<close>) or a \<^verbatim>\<open>sql.Result\<close> (\<open>Inr\<close>).
\<close>

definition exec_delete_version ::
  "backend \<Rightarrow> occ_table \<Rightarrow> string \<Rightarrow> bytes \<Rightarrow> bytes
     \<Rightarrow> (go_error + sql_result) \<times> occ_table" where
  "exec_delete_version b t h r c =
     (case exec_fault b of
        Some e \<Rightarrow> (Inl e, t)
      | None \<Rightarrow>
          (if t (h, r) = Some c
           then (Inr \<lparr>affected = 1\<rparr>, t((h, r) := None))
           else (Inr \<lparr>affected = 0\<rparr>, t)))"

text \<open>
  \<^verbatim>\<open>UPDATE projection.occ SET version = $1 WHERE handler = $2 AND resource = $3
  AND version = $4\<close>.
\<close>

definition exec_update ::
  "backend \<Rightarrow> occ_table \<Rightarrow> bytes \<Rightarrow> string \<Rightarrow> bytes \<Rightarrow> bytes
     \<Rightarrow> (go_error + sql_result) \<times> occ_table" where
  "exec_update b t n h r c =
     (case exec_fault b of
        Some e \<Rightarrow> (Inl e, t)
      | None \<Rightarrow>
          (if t (h, r) = Some c
           then (Inr \<lparr>affected = 1\<rparr>, t((h, r) \<mapsto> n))
           else (Inr \<lparr>affected = 0\<rparr>, t)))"

text \<open>\<^verbatim>\<open>DELETE FROM projection.occ WHERE handler = $1 AND resource = $2\<close>.\<close>

definition exec_delete ::
  "backend \<Rightarrow> occ_table \<Rightarrow> string \<Rightarrow> bytes \<Rightarrow> go_error option \<times> occ_table" where
  "exec_delete b t h r =
     (case exec_fault b of
        Some e \<Rightarrow> (Some e, t)
      | None \<Rightarrow> (None, t((h, r) := None)))"

text \<open>
  \<^verbatim>\<open>SELECT version FROM projection.occ WHERE handler = $1 AND resource = $2\<close>, read
  with \<^verbatim>\<open>row.Scan(&v)\<close>: without a row \<^verbatim>\<open>Scan\<close> returns \<^verbatim>\<open>sql.ErrNoRows\<close> and
  leaves \<^verbatim>\<open>v\<close> nil.
\<close>

definition query_scan ::
  "backend \<Rightarrow> occ_table \<Rightarrow> string \<Rightarrow> bytes \<Rightarrow> bytes \<times> go_error option" where
  "query_scan b t h r =
     (case exec_fault b of
        Some e \<Rightarrow> ([], Some e)
      | None \<Rightarrow>
          (case t (h, r) of
             None \<Rightarrow> ([], Some ErrNoRows)
           | Some v \<Rightarrow> (v, None)))"

text \<open>\<^verbatim>\<open>res.RowsAffected()\<close>.\<close>

definition RowsAffected :: "backend \<Rightarrow> sql_result \<Rightarrow> int \<times> go_error option" where
  "RowsAffected b res =
     (case rows_fault b of
        Some e \<Rightarrow> (0, Some e)
      | None \<Rightarrow> (affected res, None))"

subsection \<open>The driver's operations\<close>

text \<open>
  \<^verbatim>\<open>postgresDriver.StoreVersion\<close>: sets the version of the resource whatever is
  stored. Returns the error and the table afterwards.
\<close>

definition StoreVersion ::
  "backend \<Rightarrow> occ_table \<Rightarrow> string \<Rightarrow> bytes \<Rightarrow> bytes \<Rightarrow> go_error option \<times> occ_table" where
  "StoreVersion b t h r v = exec_upsert b t h r v"

text \<open>
  \<^verbatim>\<open>postgresDriver.UpdateVersion\<close>, the compare-and-swap. Returns the pair
  \<^verbatim>\<open>(bool, error)\<close> of the Go function and the table afterwards.
\<close>

definition UpdateVersion ::
  "backend \<Rightarrow> occ_table \<Rightarrow> string \<Rightarrow> bytes \<Rightarrow> bytes \<Rightarrow> bytes
     \<Rightarrow> (bool \<times> go_error option) \<times> occ_table" where
  "UpdateVersion b t h r c n =
     (if length c = 0 then
        (case exec_insert b t h r n of
           (err, t') \<Rightarrow>
             if isDup err then ((False, None), t') else ((True, err), t'))
      else
        (case (if length n = 0
               then exec_delete_version b t h r c
               else exec_update b t n h r c) of
           (Inl err, t') \<Rightarrow> ((False, Some err), t')
         | (Inr res, t') \<Rightarrow>
             (case RowsAffected b res of
                (count, err) \<Rightarrow> ((count \<noteq> 0, err), t'))))"

text \<open>\<^verbatim>\<open>postgresDriver.QueryVersion\<close>; it does not write to the table.\<close>

definition QueryVersion ::
  "backend \<Rightarrow> occ_table \<Rightarrow> string \<Rightarrow> bytes \<Rightarrow> bytes \<times> go_error option" where
  "QueryVersion b t h r =
     (case query_scan b t h r of
        (v, err) \<Rightarrow> if err = Some ErrNoRows then ([], None) else (v, err))"

text \<open>\<^verbatim>\<open>postgresDriver.DeleteResource\<close>.\<close>

definition DeleteResource ::
  "backend \<Rightarrow> occ_table \<Rightarrow> string \<Rightarrow> bytes \<Rightarrow> go_error option \<times> occ_table" where
  "DeleteResource b t h r = exec_delete b t h r"

text \<open>
  The driver's two statements on the schema. The database is \<open>None\<close> while the schema
  \<^verbatim>\<open>projection\<close> does not exist, and \<open>Some t\<close> with the table \<open>t\<close> once it does.
\<close>

type_synonym database = "occ_table option"

text \<open>A failure reported by the server, in the error type of the client in use.\<close>

definition server_error :: "sql_driver \<Rightarrow> string \<Rightarrow> go_error" where
  "server_error d code = (case d of LibPq \<Rightarrow> PqError code | PgxStdlib \<Rightarrow> PgconnError code)"

text \<open>
  \<^verbatim>\<open>postgresDriver.CreateSchema\<close>: \<^verbatim>\<open>CREATE SCHEMA projection; CREATE TABLE
  projection.occ (...)\<close>. Where the schema exists already the statement fails (SQLSTATE
  42P06, duplicate schema) and nothing is changed; otherwise the table starts empty.
\<close>

definition CreateSchema :: "backend \<Rightarrow> database \<Rightarrow> go_error option \<times> database" where
  "CreateSchema b db =
     (case exec_fault b of
        Some e \<Rightarrow> (Some e, db)
      | None \<Rightarrow>
          (case db of
             Some t \<Rightarrow> (Some (server_error (driver b) ''42P06''), db)
           | None \<Rightarrow> (None, Some empty_table)))"

text \<open>
  \<^verbatim>\<open>postgresDriver.DropSchema\<close>: \<^verbatim>\<open>DROP SCHEMA IF EXISTS projection CASCADE\<close> drops
  the table with all its rows, and succeeds where there is no schema.
\<close>

definition DropSchema :: "backend \<Rightarrow> database \<Rightarrow> go_error option \<times> database" where
  "DropSchema b db =
     (case exec_fault b of
        Some e \<Rightarrow> (Some e, db)
      | None \<Rightarrow> (None, None))"

text \<open>
  One call of a method of the driver that reaches the database.
  (\<^verbatim>\<open>IsCompatibleWith\<close> only inspects the type of the connection's client.)
\<close>

datatype driver_call =
    CreateSchemaCall
  | DropSchemaCall
  | StoreVersionCall string bytes bytes
  | UpdateVersionCall string bytes bytes bytes
  | QueryVersionCall string bytes
  | DeleteResourceCall string bytes

text \<open>
  The database after a call. Without the schema every statement on the table fails
  (the relation does not exist) and writes nothing; with it, the table afterwards is the
  one the operation leaves.
\<close>

fun call :: "backend \<Rightarrow> database \<Rightarrow> driver_call \<Rightarrow> database" where
  "call b db CreateSchemaCall = snd (CreateSchema b db)"
| "call b db DropSchemaCall = snd (DropSchema b db)"
| "call b db (QueryVersionCall h r) = db"
| "call b None (StoreVersionCall h r v) = None"
| "call b None (UpdateVersionCall h r c n) = None"
| "call b None (DeleteResourceCall h r) = None"
| "call b (Some t) (StoreVersionCall h r v) = Some (snd (StoreVersion b t h r v))"
| "call b (Some t) (UpdateVersionCall h r c n) = Some (snd (UpdateVersion b t h r c n))"
| "call b (Some t) (DeleteResourceCall h r) = Some (snd (DeleteResource b t h r))"

text \<open>The version records of a database: none while there is no schema.\<close>

definition records :: "database \<Rightarrow> occ_table" where
  "records db = (case db of None \<Rightarrow> empty_table | Some t \<Rightarrow> t)"

section \<open>Options of the DynamoDB projection\<close>

text \<open>
  The request and client-option structures of the AWS SDK are opaque here. A decorator
  may change the request it is given and returns a slice of functions on the client
  options; a Go function value may be nil, which is \<open>None\<close>.
\<close>

typedecl dynamodb_Options
typedecl GetItemInput
typedecl PutItemInput
typedecl DeleteItemInput
typedecl TransactWriteItemsInput
typedecl CreateTableInput
typedecl DeleteTableInput

type_synonym 'i decorator = "('i \<Rightarrow> 'i \<times> (dynamodb_Options \<Rightarrow> dynamodb_Options) list) option"

record decorators =
  decorateGetItem :: "GetItemInput decorator"
  decoratePutItem :: "PutItemInput decorator"
  decorateDeleteItem :: "DeleteItemInput decorator"
  decorateTransactWriteItems :: "TransactWriteItemsInput decorator"
  decorateCreateTableItem :: "CreateTableInput decorator"
  decorateDeleteTableItem :: "DeleteTableInput decorator"

text \<open>
  The struct \<^verbatim>\<open>options\<close>. Each field is a \<^verbatim>\<open>func(*decorators)\<close> that updates the
  structure it points to: here a function from the structure before to the structure
  after.
\<close>

record options =
  applyOptionToAdaptorFunc :: "(decorators \<Rightarrow> decorators) option"
  applyResourceRepositoryOptionFunc :: "(decorators \<Rightarrow> decorators) option"
  applyTableOptionFunc :: "(decorators \<Rightarrow> decorators) option"

definition applyOptionToAdaptor :: "options \<Rightarrow> decorators \<Rightarrow> decorators" where
  "applyOptionToAdaptor o' d =
     (case applyOptionToAdaptorFunc o' of None \<Rightarrow> d | Some f \<Rightarrow> f d)"

definition applyResourceRepositoryOption :: "options \<Rightarrow> decorators \<Rightarrow> decorators" where
  "applyResourceRepositoryOption o' d =
     (case applyResourceRepositoryOptionFunc o' of None \<Rightarrow> d | Some f \<Rightarrow> f d)"

definition applyTableOption :: "options \<Rightarrow> decorators \<Rightarrow> decorators" where
  "applyTableOption o' d =
     (case applyTableOptionFunc o' of None \<Rightarrow> d | Some f \<Rightarrow> f d)"

definition WithDecorateGetItem :: "GetItemInput decorator \<Rightarrow> options" where
  "WithDecorateGetItem dec =
     \<lparr>applyOptionToAdaptorFunc = Some (\<lambda>d. d),
      applyResourceRepositoryOptionFunc = Some (\<lambda>d. d\<lparr>decorateGetItem := dec\<rparr>),
      applyTableOptionFunc = None\<rparr>"

definition WithDecoratePutItem :: "PutItemInput decorator \<Rightarrow> options" where
  "WithDecoratePutItem dec =
     \<lparr>applyOptionToAdaptorFunc = Some (\<lambda>d. d),
      applyResourceRepositoryOptionFunc = Some (\<lambda>d. d\<lparr>decoratePutItem := dec\<rparr>),
      applyTableOptionFunc = None\<rparr>"

definition WithDecorateDeleteItem :: "DeleteItemInput decorator \<Rightarrow> options" where
  "WithDecorateDeleteItem dec =
     \<lparr>applyOptionToAdaptorFunc = Some (\<lambda>d. d),
      applyResourceRepositoryOptionFunc = Some (\<lambda>d. d\<lparr>decorateDeleteItem := dec\<rparr>),
      applyTableOptionFunc = None\<rparr>"

definition WithDecorateTransactWriteItems :: "TransactWriteItemsInput decorator \<Rightarrow> options" where
  "WithDecorateTransactWriteItems dec =
     \<lparr>applyOptionToAdaptorFunc = Some (\<lambda>d. d),
      applyResourceRepositoryOptionFunc = Some (\<lambda>d. d\<lparr>decorateTransactWriteItems := dec\<rparr>),
      applyTableOptionFunc = None\<rparr>"

definition WithDecorateCreateTable :: "CreateTableInput decorator \<Rightarrow> options" where
  "WithDecorateCreateTable dec =
     \<lparr>applyOptionToAdaptorFunc = None,
      applyResourceRepositoryOptionFunc = None,
      applyTableOptionFunc = Some (\<lambda>d. d\<lparr>decorateCreateTableItem := dec\<rparr>)\<rparr>"

definition WithDecorateDeleteTable :: "DeleteTableInput decorator \<Rightarrow> options" where
  "WithDecorateDeleteTable dec =
     \<lparr>applyOptionToAdaptorFunc = None,
      applyResourceRepositoryOptionFunc = None,
      applyTableOptionFunc = Some (\<lambda>d. d\<lparr>decorateDeleteTableItem := dec\<rparr>)\<rparr>"

text \<open>The zero value of \<^verbatim>\<open>decorators\<close>: every field nil.\<close>

definition no_decorators :: decorators where
  "no_decorators =
     \<lparr>decorateGetItem = None, decoratePutItem = None, decorateDeleteItem = None,
      decorateTransactWriteItems = None, decorateCreateTableItem = None,
      decorateDeleteTableItem = None\<rparr>"

section \<open>Properties of the PostgreSQL driver\<close>

subsection \<open>Classification of errors\<close>

lemma isDup_nil: "\<not> isDup None"
  by (simp add: isDup_def)

lemma isDup_unique_violation: "isDup (Some (unique_violation d))"
  by (cases d) (simp_all add: isDup_def unique_violation_def)

text \<open>An error chain ends in one error, so it cannot hold errors of both driver types.\<close>

lemma as_pq_excludes_pgconn: "as_pq e = Some code \<Longrightarrow> as_pgconn e = None"
  by (induction e) simp_all

lemma isDup_iff:
  "isDup (Some e) \<longleftrightarrow> as_pq e = Some UniqueViolation \<or> as_pgconn e = Some UniqueViolation"
proof (cases "as_pq e")
  case None
  then show ?thesis
    by (cases "as_pgconn e") (simp_all add: isDup_def)
next
  case (Some code)
  then have "as_pgconn e = None"
    by (rule as_pq_excludes_pgconn)
  with Some show ?thesis
    by (simp add: isDup_def)
qed

text \<open>
  \<^verbatim>\<open>StoreVersion\<close> is the one statement that sets a version whatever is stored;
  \<^verbatim>\<open>DeleteResource\<close> removes the record whatever is stored.
\<close>

lemma StoreVersion_overwrites:
  "exec_fault b = None \<Longrightarrow> StoreVersion b t h r v = (None, t((h, r) \<mapsto> v))"
  by (simp add: StoreVersion_def exec_upsert_def)

lemma DeleteResource_removes:
  "exec_fault b = None \<Longrightarrow> DeleteResource b t h r = (None, t((h, r) := None))"
  by (simp add: DeleteResource_def exec_delete_def)

subsection \<open>First write against an existing record\<close>

text \<open>
  Claim C1. When \<^verbatim>\<open>UpdateVersion\<close> is called with an empty current token and the
  resource already has a version record, the \<^verbatim>\<open>INSERT\<close> ends in a unique violation,
  and the call returns \<^verbatim>\<open>(false, nil)\<close>: the violation is not propagated, and the table
  is left as it was.
\<close>

theorem UpdateVersion_insert_duplicate:
  assumes "exec_fault b = None" and "length c = 0" and "t (h, r) = Some v"
  shows "fst (exec_insert b t h r n) = Some (unique_violation (driver b))
         \<and> UpdateVersion b t h r c n = ((False, None), t)"
  using assms by (simp add: UpdateVersion_def exec_insert_def isDup_unique_violation)

theorem UpdateVersion_insert_duplicate_witness:
  "exec_fault \<lparr>driver = PgxStdlib, exec_fault = None, rows_fault = None\<rparr> = None
   \<and> length ([] :: bytes) = 0
   \<and> (empty_table((''h'', [1]) \<mapsto> [7])) (''h'', [1]) = Some [7]
   \<and> UpdateVersion \<lparr>driver = PgxStdlib, exec_fault = None, rows_fault = None\<rparr>
        (empty_table((''h'', [1]) \<mapsto> [7])) ''h'' [1] [] [8]
      = ((False, None), empty_table((''h'', [1]) \<mapsto> [7]))"
  using UpdateVersion_insert_duplicate
    [of "\<lparr>driver = PgxStdlib, exec_fault = None, rows_fault = None\<rparr>" "[]"
        "empty_table((''h'', [1]) \<mapsto> [7])" "''h''" "[1]" "[7]" "[8]"]
  by simp

subsection \<open>Update of an existing record\<close>

text \<open>
  Claim C2. When both tokens are non-empty and the statement runs, the version of the
  record becomes the next token if and only if the stored version equals the current
  token; otherwise the table stays as it was. The flag returned is true exactly when the
  \<^verbatim>\<open>UPDATE\<close> affected a row.
\<close>

theorem UpdateVersion_update:
  assumes "exec_fault b = None" and "rows_fault b = None" and "c \<noteq> []" and "n \<noteq> []"
  shows "UpdateVersion b t h r c n =
           (if t (h, r) = Some c then ((True, None), t((h, r) \<mapsto> n)) else ((False, None), t))
         \<and> fst (fst (UpdateVersion b t h r c n)) =
             (case fst (exec_update b t n h r c) of
                Inl e \<Rightarrow> False
              | Inr res \<Rightarrow> affected res \<noteq> 0)"
  using assms by (simp add: UpdateVersion_def exec_update_def RowsAffected_def)

theorem UpdateVersion_update_witness:
  "exec_fault \<lparr>driver = LibPq, exec_fault = None, rows_fault = None\<rparr> = None
   \<and> rows_fault \<lparr>driver = LibPq, exec_fault = None, rows_fault = None\<rparr> = None
   \<and> ([7] :: bytes) \<noteq> [] \<and> ([8] :: bytes) \<noteq> []
   \<and> UpdateVersion \<lparr>driver = LibPq, exec_fault = None, rows_fault = None\<rparr>
        (empty_table((''h'', [1]) \<mapsto> [7])) ''h'' [1] [7] [8]
      = ((True, None), (empty_table((''h'', [1]) \<mapsto> [7]))((''h'', [1]) \<mapsto> [8]))
   \<and> UpdateVersion \<lparr>driver = LibPq, exec_fault = None, rows_fault = None\<rparr>
        (empty_table((''h'', [1]) \<mapsto> [9])) ''h'' [1] [7] [8]
      = ((False, None), empty_table((''h'', [1]) \<mapsto> [9]))"
  using
    UpdateVersion_update
      [of "\<lparr>driver = LibPq, exec_fault = None, rows_fault = None\<rparr>" "[7]" "[8]"
          "empty_table((''h'', [1]) \<mapsto> [7])" "''h''" "[1]"]
    UpdateVersion_update
      [of "\<lparr>driver = LibPq, exec_fault = None, rows_fault = None\<rparr>" "[7]" "[8]"
          "empty_table((''h'', [1]) \<mapsto> [9])" "''h''" "[1]"]
  by simp

subsection \<open>First write\<close>

text \<open>
  Claim C3. When \<^verbatim>\<open>UpdateVersion\<close> is called with an empty current token, the
  resource has no record and the statement runs, a record with the next token is
  inserted and the call returns \<^verbatim>\<open>(true, nil)\<close>.
\<close>

theorem UpdateVersion_insert_fresh:
  assumes "exec_fault b = None" and "length c = 0" and "t (h, r) = None"
  shows "UpdateVersion b t h r c n = ((True, None), t((h, r) \<mapsto> n))"
  using assms by (simp add: UpdateVersion_def exec_insert_def isDup_nil)

theorem UpdateVersion_insert_fresh_witness:
  "exec_fault \<lparr>driver = LibPq, exec_fault = None, rows_fault = None\<rparr> = None
   \<and> length ([] :: bytes) = 0
   \<and> empty_table (''h'', [1]) = None
   \<and> UpdateVersion \<lparr>driver = LibPq, exec_fault = None, rows_fault = None\<rparr>
        empty_table ''h'' [1] [] [8]
      = ((True, None), empty_table((''h'', [1]) \<mapsto> [8]))"
  using UpdateVersion_insert_fresh
    [of "\<lparr>driver = LibPq, exec_fault = None, rows_fault = None\<rparr>" "[]"
        empty_table "''h''" "[1]" "[8]"]
  by (simp add: empty_table_def)

subsection \<open>Deletion\<close>

text \<open>
  Claim C4. With a non-empty current token and an empty next token, the record is
  deleted if and only if its stored version equals the current token, the flag returned
  is true exactly when the \<^verbatim>\<open>DELETE\<close> affected a row, and \<^verbatim>\<open>QueryVersion\<close> on the
  resource after a deletion returns the empty token without an error.
\<close>

theorem UpdateVersion_delete:
  assumes "exec_fault b = None" and "rows_fault b = None" and "exec_fault q = None"
    and "c \<noteq> []" and "length n = 0"
  shows "UpdateVersion b t h r c n =
           (if t (h, r) = Some c then ((True, None), t((h, r) := None)) else ((False, None), t))
         \<and> fst (fst (UpdateVersion b t h r c n)) =
             (case fst (exec_delete_version b t h r c) of
                Inl e \<Rightarrow> False
              | Inr res \<Rightarrow> affected res \<noteq> 0)
         \<and> (if t (h, r) = Some c
            then QueryVersion q (snd (UpdateVersion b t h r c n)) h r = ([], None)
            else snd (UpdateVersion b t h r c n) = t)"
  using assms
  by (simp add: UpdateVersion_def exec_delete_version_def RowsAffected_def
      QueryVersion_def query_scan_def)

theorem UpdateVersion_delete_witness:
  "exec_fault \<lparr>driver = LibPq, exec_fault = None, rows_fault = None\<rparr> = None
   \<and> rows_fault \<lparr>driver = LibPq, exec_fault = None, rows_fault = None\<rparr> = None
   \<and> ([7] :: bytes) \<noteq> [] \<and> length ([] :: bytes) = 0
   \<and> UpdateVersion \<lparr>driver = LibPq, exec_fault = None, rows_fault = None\<rparr>
        (empty_table((''h'', [1]) \<mapsto> [7])) ''h'' [1] [7] []
      = ((True, None), (empty_table((''h'', [1]) \<mapsto> [7]))((''h'', [1]) := None))
   \<and> QueryVersion \<lparr>driver = LibPq, exec_fault = None, rows_fault = None\<rparr>
        (snd (UpdateVersion \<lparr>driver = LibPq, exec_fault = None, rows_fault = None\<rparr>
               (empty_table((''h'', [1]) \<mapsto> [7])) ''h'' [1] [7] [])) ''h'' [1]
      = ([], None)"
  using UpdateVersion_delete
    [of "\<lparr>driver = LibPq, exec_fault = None, rows_fault = None\<rparr>"
        "\<lparr>driver = LibPq, exec_fault = None, rows_fault = None\<rparr>" "[7]" "[]"
        "empty_table((''h'', [1]) \<mapsto> [7])" "''h''" "[1]"]
  by (simp add: UpdateVersion_def exec_delete_version_def RowsAffected_def
      QueryVersion_def query_scan_def)

subsection \<open>Repeated application\<close>

text \<open>
  Claim C5, as stated, fails: a compare-and-swap whose current and next tokens are the
  same token, against a record at that token, matches the \<^verbatim>\<open>UPDATE\<close> and returns
  \<^verbatim>\<open>(true, nil)\<close>, the first time and every time after.
\<close>

theorem UpdateVersion_idempotence_counterexample:
  "(empty_table((''h'', [1]) \<mapsto> [5])) (''h'', [1]) = Some [5]
   \<and> UpdateVersion \<lparr>driver = LibPq, exec_fault = None, rows_fault = None\<rparr>
        (empty_table((''h'', [1]) \<mapsto> [5])) ''h'' [1] [5] [5]
      = ((True, None), empty_table((''h'', [1]) \<mapsto> [5]))"
  by (simp add: UpdateVersion_def exec_update_def RowsAffected_def)

text \<open>
  Claim C5, amended. When the current and the next token differ, the statement runs, and
  the version that \<^verbatim>\<open>QueryVersion\<close> reports for the resource (the empty token when
  there is no record) already equals the next token, \<^verbatim>\<open>UpdateVersion\<close> with that pair
  returns \<^verbatim>\<open>(false, nil)\<close> and leaves the table as it was.
\<close>

theorem UpdateVersion_idempotent:
  assumes "exec_fault b = None" and "rows_fault b = None" and "c \<noteq> n"
    and "QueryVersion b t h r = (n, None)"
  shows "UpdateVersion b t h r c n = ((False, None), t)"
proof (cases "t (h, r)")
  case None
  with assms have "n = []" and "c \<noteq> []"
    by (simp_all add: QueryVersion_def query_scan_def)
  with assms None show ?thesis
    by (simp add: UpdateVersion_def exec_delete_version_def RowsAffected_def)
next
  case (Some v)
  with assms have v: "v = n"
    by (simp add: QueryVersion_def query_scan_def)
  show ?thesis
  proof (cases "c = []")
    case True
    with assms Some show ?thesis
      by (simp add: UpdateVersion_def exec_insert_def isDup_unique_violation)
  next
    case False
    with assms Some v show ?thesis
      by (simp add: UpdateVersion_def exec_delete_version_def exec_update_def RowsAffected_def)
  qed
qed

theorem UpdateVersion_idempotent_witness:
  "exec_fault \<lparr>driver = LibPq, exec_fault = None, rows_fault = None\<rparr> = None
   \<and> rows_fault \<lparr>driver = LibPq, exec_fault = None, rows_fault = None\<rparr> = None
   \<and> ([7] :: bytes) \<noteq> [8]
   \<and> QueryVersion \<lparr>driver = LibPq, exec_fault = None, rows_fault = None\<rparr>
        (empty_table((''h'', [1]) \<mapsto> [8])) ''h'' [1] = ([8], None)
   \<and> UpdateVersion \<lparr>driver = LibPq, exec_fault = None, rows_fault = None\<rparr>
        (empty_table((''h'', [1]) \<mapsto> [8])) ''h'' [1] [7] [8]
      = ((False, None), empty_table((''h'', [1]) \<mapsto> [8]))"
  using UpdateVersion_idempotent
    [of "\<lparr>driver = LibPq, exec_fault = None, rows_fault = None\<rparr>" "[7]" "[8]"
        "empty_table((''h'', [1]) \<mapsto> [8])" "''h''" "[1]"]
  by (simp add: QueryVersion_def query_scan_def)

subsection \<open>Reading back\<close>

text \<open>
  Claim C6. After \<^verbatim>\<open>UpdateVersion\<close> has returned \<^verbatim>\<open>(true, nil)\<close> for a non-empty next
  token, \<^verbatim>\<open>QueryVersion\<close> on the resulting table returns exactly the next token; and
  when the resource has no record, \<^verbatim>\<open>QueryVersion\<close> returns the empty token and a nil
  error.
\<close>

theorem QueryVersion_round_trip:
  assumes "exec_fault q = None"
  shows "(UpdateVersion b t h r c n = ((True, None), t') \<and> n \<noteq> []
            \<longrightarrow> QueryVersion q t' h r = (n, None))
         \<and> (t (h, r) = None \<longrightarrow> QueryVersion q t h r = ([], None))"
proof (intro conjI impI)
  assume "t (h, r) = None"
  with assms show "QueryVersion q t h r = ([], None)"
    by (simp add: QueryVersion_def query_scan_def)
next
  assume a: "UpdateVersion b t h r c n = ((True, None), t') \<and> n \<noteq> []"
  then have "t' (h, r) = Some n"
    by (auto simp add: UpdateVersion_def exec_insert_def exec_update_def RowsAffected_def
        split: if_splits option.splits)
  with assms show "QueryVersion q t' h r = (n, None)"
    by (simp add: QueryVersion_def query_scan_def)
qed

theorem QueryVersion_round_trip_witness:
  "exec_fault \<lparr>driver = PgxStdlib, exec_fault = None, rows_fault = None\<rparr> = None
   \<and> UpdateVersion \<lparr>driver = LibPq, exec_fault = None, rows_fault = None\<rparr>
        empty_table ''h'' [1] [] [8]
      = ((True, None), empty_table((''h'', [1]) \<mapsto> [8]))
   \<and> ([8] :: bytes) \<noteq> []
   \<and> QueryVersion \<lparr>driver = PgxStdlib, exec_fault = None, rows_fault = None\<rparr>
        (empty_table((''h'', [1]) \<mapsto> [8])) ''h'' [1] = ([8], None)
   \<and> empty_table (''h'', [1]) = None
   \<and> QueryVersion \<lparr>driver = PgxStdlib, exec_fault = None, rows_fault = None\<rparr>
        empty_table ''h'' [1] = ([], None)"
  using QueryVersion_round_trip
    [of "\<lparr>driver = PgxStdlib, exec_fault = None, rows_fault = None\<rparr>"
        "\<lparr>driver = LibPq, exec_fault = None, rows_fault = None\<rparr>"
        empty_table "''h''" "[1]" "[]" "[8]" "empty_table((''h'', [1]) \<mapsto> [8])"]
  by (simp add: UpdateVersion_def exec_insert_def isDup_nil empty_table_def)

subsection \<open>Which operations change a version record\<close>

text \<open>
  \<^verbatim>\<open>UpdateVersion\<close> touches no record but that of its own handler and resource, and it
  changes that record only when the stored version matches the current token of the
  caller: with an empty current token only when there is no record, with a non-empty one
  only when the record holds exactly that token.
\<close>

lemma UpdateVersion_changes_conditioned:
  assumes "UpdateVersion b t h r c n = (res, t')"
  shows "(\<forall>k. k \<noteq> (h, r) \<longrightarrow> t' k = t k)
         \<and> (t' (h, r) \<noteq> t (h, r) \<longrightarrow>
              (if c = [] then t (h, r) = None \<and> t' (h, r) = Some n
               else t (h, r) = Some c \<and> t' (h, r) = (if n = [] then None else Some n)))"
  using assms
  by (auto simp add: UpdateVersion_def exec_insert_def exec_update_def exec_delete_version_def
      RowsAffected_def split: if_splits option.splits)

lemma UpdateVersion_change:
  assumes "snd (UpdateVersion b t h r c n) k \<noteq> t k"
  shows "k = (h, r)
         \<and> (if c = [] then t k = None \<and> snd (UpdateVersion b t h r c n) k = Some n
            else t k = Some c
                 \<and> snd (UpdateVersion b t h r c n) k = (if n = [] then None else Some n))"
proof -
  obtain res t' where u: "UpdateVersion b t h r c n = (res, t')"
    by (cases "UpdateVersion b t h r c n")
  from assms u have ne: "t' k \<noteq> t k"
    by simp
  from UpdateVersion_changes_conditioned [OF u] have
    others: "\<forall>k. k \<noteq> (h, r) \<longrightarrow> t' k = t k" and
    own: "t' (h, r) \<noteq> t (h, r) \<longrightarrow>
            (if c = [] then t (h, r) = None \<and> t' (h, r) = Some n
             else t (h, r) = Some c \<and> t' (h, r) = (if n = [] then None else Some n))"
    by simp_all
  from others ne have k: "k = (h, r)"
    by blast
  from u have s: "snd (UpdateVersion b t h r c n) = t'"
    by simp
  from own ne k show ?thesis
    unfolding s by (simp split: if_splits)
qed

lemma StoreVersion_change:
  "snd (StoreVersion b t h r v) k \<noteq> t k \<Longrightarrow> k = (h, r) \<and> snd (StoreVersion b t h r v) k = Some v"
  by (cases "exec_fault b") (auto simp add: StoreVersion_def exec_upsert_def split: if_splits)

lemma DeleteResource_change:
  "snd (DeleteResource b t h r) k \<noteq> t k \<Longrightarrow> k = (h, r) \<and> snd (DeleteResource b t h r) k = None"
  by (cases "exec_fault b") (auto simp add: DeleteResource_def exec_delete_def split: if_splits)

lemma CreateSchema_records: "records (snd (CreateSchema b db)) = records db"
  by (cases "exec_fault b"; cases db) (simp_all add: CreateSchema_def records_def)

lemma DropSchema_change:
  "records (snd (DropSchema b db)) k \<noteq> records db k \<Longrightarrow> records (snd (DropSchema b db)) k = None"
  by (cases "exec_fault b") (simp_all add: DropSchema_def records_def empty_table_def)

text \<open>
  Claim C7, as stated, fails: the driver has operations that change a record's version
  with no current token to compare. After a compare-and-swap has created the record of a
  resource at one version, \<^verbatim>\<open>StoreVersion\<close> sets it to another whatever is stored, and
  \<^verbatim>\<open>DeleteResource\<close> removes it whatever is stored. Neither asks whether a record exists
  already.
\<close>

theorem unconditional_change_counterexample:
  "UpdateVersion \<lparr>driver = LibPq, exec_fault = None, rows_fault = None\<rparr>
       empty_table ''h'' [1] [] [7]
     = ((True, None), empty_table((''h'', [1]) \<mapsto> [7]))
   \<and> (empty_table((''h'', [1]) \<mapsto> [7])) (''h'', [1]) = Some [7]
   \<and> snd (StoreVersion \<lparr>driver = LibPq, exec_fault = None, rows_fault = None\<rparr>
            (empty_table((''h'', [1]) \<mapsto> [7])) ''h'' [1] [8]) (''h'', [1]) = Some [8]
   \<and> snd (DeleteResource \<lparr>driver = LibPq, exec_fault = None, rows_fault = None\<rparr>
            (empty_table((''h'', [1]) \<mapsto> [7])) ''h'' [1]) (''h'', [1]) = None"
  by (simp add: UpdateVersion_def exec_insert_def isDup_nil empty_table_def
      StoreVersion_def exec_upsert_def DeleteResource_def exec_delete_def)

text \<open>
  Claim C7, amended. Whenever one call of the driver changes the version record of a
  handler and resource, under any failure of the statement, the call is one of these:
  \<^verbatim>\<open>UpdateVersion\<close> for that handler and resource, and then the stored version matched
  the current token of the caller (no record for an empty current token, a record with
  exactly that token otherwise) and the record now holds the next token, or is gone
  when the next token is empty; \<^verbatim>\<open>StoreVersion\<close> for that handler and resource, which
  leaves the version it was given; \<^verbatim>\<open>DeleteResource\<close> for that handler and resource,
  which leaves no record; or \<^verbatim>\<open>DropSchema\<close>, which leaves no record at all.
  \<^verbatim>\<open>QueryVersion\<close> and \<^verbatim>\<open>CreateSchema\<close> change no record.
\<close>

theorem record_changes_by_operation:
  assumes "records (call b db op) k \<noteq> records db k"
  shows "case op of
           UpdateVersionCall h r c n \<Rightarrow>
             k = (h, r)
             \<and> (if c = []
                then records db k = None \<and> records (call b db op) k = Some n
                else records db k = Some c
                     \<and> records (call b db op) k = (if n = [] then None else Some n))
         | StoreVersionCall h r v \<Rightarrow> k = (h, r) \<and> records (call b db op) k = Some v
         | DeleteResourceCall h r \<Rightarrow> k = (h, r) \<and> records (call b db op) k = None
         | DropSchemaCall \<Rightarrow> records (call b db op) k = None
         | CreateSchemaCall \<Rightarrow> False
         | QueryVersionCall h r \<Rightarrow> False"
proof (cases op)
  case CreateSchemaCall
  with assms show ?thesis
    by (simp add: CreateSchema_records)
next
  case DropSchemaCall
  with assms DropSchema_change [of b db k] show ?thesis
    by simp
next
  case (QueryVersionCall h r)
  with assms show ?thesis
    by simp
next
  case (StoreVersionCall h r v)
  with assms show ?thesis
    by (cases db) (auto simp add: records_def dest: StoreVersion_change)
next
  case (DeleteResourceCall h r)
  with assms show ?thesis
    by (cases db) (auto simp add: records_def dest: DeleteResource_change)
next
  case (UpdateVersionCall h r c n)
  show ?thesis
  proof (cases db)
    case None
    with assms UpdateVersionCall show ?thesis
      by (simp add: records_def)
  next
    case (Some t)
    with assms UpdateVersionCall have "snd (UpdateVersion b t h r c n) k \<noteq> t k"
      by (simp add: records_def)
    from UpdateVersion_change [OF this] Some UpdateVersionCall show ?thesis
      by (auto simp add: records_def split: if_splits)
  qed
qed

theorem record_changes_by_operation_witness:
  "records (call \<lparr>driver = LibPq, exec_fault = None, rows_fault = None\<rparr>
              (Some (empty_table((''h'', [1]) \<mapsto> [7])))
              (UpdateVersionCall ''h'' [1] [7] [8])) (''h'', [1])
     \<noteq> records (Some (empty_table((''h'', [1]) \<mapsto> [7]))) (''h'', [1])
   \<and> records (Some (empty_table((''h'', [1]) \<mapsto> [7]))) (''h'', [1]) = Some [7]
   \<and> records (call \<lparr>driver = LibPq, exec_fault = None, rows_fault = None\<rparr>
                (Some (empty_table((''h'', [1]) \<mapsto> [7])))
                (UpdateVersionCall ''h'' [1] [7] [8])) (''h'', [1]) = Some [8]"
  using record_changes_by_operation
    [of "\<lparr>driver = LibPq, exec_fault = None, rows_fault = None\<rparr>"
        "Some (empty_table((''h'', [1]) \<mapsto> [7]))"
        "UpdateVersionCall ''h'' [1] [7] [8]" "(''h'', [1])"]
  by (simp add: records_def UpdateVersion_def exec_update_def RowsAffected_def)

subsection \<open>Errors that are not unique violations\<close>

text \<open>
  Claim C8. When the \<^verbatim>\<open>INSERT\<close> of \<^verbatim>\<open>UpdateVersion\<close> fails with an error for which
  \<^verbatim>\<open>isDup\<close> is false, that error is the error returned: the call does not return
  \<^verbatim>\<open>(false, nil)\<close>.
\<close>

theorem UpdateVersion_insert_error_propagated:
  assumes "length c = 0" and "fst (exec_insert b t h r n) = Some e" and "\<not> isDup (Some e)"
  shows "snd (fst (UpdateVersion b t h r c n)) = Some e
         \<and> fst (UpdateVersion b t h r c n) \<noteq> (False, None)"
  using assms by (cases "exec_insert b t h r n") (simp add: UpdateVersion_def)

theorem UpdateVersion_insert_error_propagated_witness:
  "length ([] :: bytes) = 0
   \<and> fst (exec_insert \<lparr>driver = LibPq, exec_fault = Some (Opaque ''broken pipe''),
                        rows_fault = None\<rparr> empty_table ''h'' [1] [8])
       = Some (Opaque ''broken pipe'')
   \<and> \<not> isDup (Some (Opaque ''broken pipe''))
   \<and> snd (fst (UpdateVersion \<lparr>driver = LibPq, exec_fault = Some (Opaque ''broken pipe''),
                                rows_fault = None\<rparr> empty_table ''h'' [1] [] [8]))
       = Some (Opaque ''broken pipe'')"
  using UpdateVersion_insert_error_propagated
    [of "[]" "\<lparr>driver = LibPq, exec_fault = Some (Opaque ''broken pipe''), rows_fault = None\<rparr>"
        empty_table "''h''" "[1]" "[8]" "Opaque ''broken pipe''"]
  by (simp add: exec_insert_def isDup_def)

text \<open>
  Claim C9. When \<^verbatim>\<open>UpdateVersion\<close> is called with an empty current token and its
  \<^verbatim>\<open>INSERT\<close> fails with an error that carries the unique-violation code in neither
  driver's error type, the call returns \<^verbatim>\<open>true\<close> together with that error.
\<close>

theorem UpdateVersion_insert_error_applied_true:
  assumes "length c = 0" and "fst (exec_insert b t h r n) = Some e"
    and "as_pq e \<noteq> Some UniqueViolation" and "as_pgconn e \<noteq> Some UniqueViolation"
  shows "fst (UpdateVersion b t h r c n) = (True, Some e)"
proof -
  from assms(3,4) have "\<not> isDup (Some e)"
    by (simp add: isDup_iff)
  with assms(1,2) show ?thesis
    by (cases "exec_insert b t h r n") (simp add: UpdateVersion_def)
qed

theorem UpdateVersion_insert_error_applied_true_witness:
  "length ([] :: bytes) = 0
   \<and> fst (exec_insert \<lparr>driver = PgxStdlib,
                        exec_fault = Some (Wrap ''exec'' (PgconnError ''40001'')),
                        rows_fault = None\<rparr> empty_table ''h'' [1] [8])
       = Some (Wrap ''exec'' (PgconnError ''40001''))
   \<and> as_pq (Wrap ''exec'' (PgconnError ''40001'')) \<noteq> Some UniqueViolation
   \<and> as_pgconn (Wrap ''exec'' (PgconnError ''40001'')) \<noteq> Some UniqueViolation
   \<and> fst (UpdateVersion \<lparr>driver = PgxStdlib,
                          exec_fault = Some (Wrap ''exec'' (PgconnError ''40001'')),
                          rows_fault = None\<rparr> empty_table ''h'' [1] [] [8])
       = (True, Some (Wrap ''exec'' (PgconnError ''40001'')))"
  using UpdateVersion_insert_error_applied_true
    [of "[]" "\<lparr>driver = PgxStdlib, exec_fault = Some (Wrap ''exec'' (PgconnError ''40001'')),
              rows_fault = None\<rparr>"
        empty_table "''h''" "[1]" "[8]" "Wrap ''exec'' (PgconnError ''40001'')"]
  by (simp add: exec_insert_def UniqueViolation_def)

section \<open>Properties of the DynamoDB options\<close>

text \<open>
  Claim C10. Applied as a handler option, each of \<^verbatim>\<open>WithDecorateGetItem\<close>,
  \<^verbatim>\<open>WithDecoratePutItem\<close>, \<^verbatim>\<open>WithDecorateDeleteItem\<close> and
  \<^verbatim>\<open>WithDecorateTransactWriteItems\<close> returns the decorators as they were. Applied as a
  resource-repository option, each sets its own field to the decorator and no other.
  An \<^verbatim>\<open>options\<close> value whose function field is nil leaves the decorators as they were.
\<close>

theorem item_decorators_frame:
  "applyOptionToAdaptor (WithDecorateGetItem g) d = d
   \<and> applyOptionToAdaptor (WithDecoratePutItem p) d = d
   \<and> applyOptionToAdaptor (WithDecorateDeleteItem x) d = d
   \<and> applyOptionToAdaptor (WithDecorateTransactWriteItems w) d = d
   \<and> applyResourceRepositoryOption (WithDecorateGetItem g) d = d\<lparr>decorateGetItem := g\<rparr>
   \<and> applyResourceRepositoryOption (WithDecoratePutItem p) d = d\<lparr>decoratePutItem := p\<rparr>
   \<and> applyResourceRepositoryOption (WithDecorateDeleteItem x) d = d\<lparr>decorateDeleteItem := x\<rparr>
   \<and> applyResourceRepositoryOption (WithDecorateTransactWriteItems w) d
       = d\<lparr>decorateTransactWriteItems := w\<rparr>
   \<and> applyTableOption (WithDecorateGetItem g) d = d
   \<and> applyTableOption (WithDecoratePutItem p) d = d
   \<and> applyTableOption (WithDecorateDeleteItem x) d = d
   \<and> applyTableOption (WithDecorateTransactWriteItems w) d = d
   \<and> (applyOptionToAdaptorFunc opt = None \<longrightarrow> applyOptionToAdaptor opt d = d)
   \<and> (applyResourceRepositoryOptionFunc opt = None
        \<longrightarrow> applyResourceRepositoryOption opt d = d)
   \<and> (applyTableOptionFunc opt = None \<longrightarrow> applyTableOption opt d = d)"
  by (simp add: applyOptionToAdaptor_def applyResourceRepositoryOption_def applyTableOption_def
      WithDecorateGetItem_def WithDecoratePutItem_def WithDecorateDeleteItem_def
      WithDecorateTransactWriteItems_def)

theorem item_decorators_frame_witness:
  "applyOptionToAdaptorFunc (WithDecorateCreateTable None) = None
   \<and> applyOptionToAdaptor (WithDecorateCreateTable None) no_decorators = no_decorators
   \<and> applyResourceRepositoryOptionFunc (WithDecorateCreateTable None) = None
   \<and> applyResourceRepositoryOption (WithDecorateCreateTable None) no_decorators = no_decorators
   \<and> applyTableOptionFunc (WithDecorateGetItem None) = None
   \<and> applyTableOption (WithDecorateGetItem None) no_decorators = no_decorators"
  using
    item_decorators_frame [of None no_decorators None None None "WithDecorateCreateTable None"]
    item_decorators_frame [of None no_decorators None None None "WithDecorateGetItem None"]
  by (simp add: WithDecorateCreateTable_def WithDecorateGetItem_def)

end
